theory Spec2Isabelle
  imports
    Complex_Main
    "HOL-Library.Sublist"
    "HOL-Library.AList"
    "HOL-Library.Char_ord"
    "HOL-Library.List_Lexorder"
    "HOL-Library.Multiset"
begin

section \<open>Strings\<close>

text \<open>
  A JavaScript string is modelled as a \<open>string\<close>, one \<open>char\<close> per code unit.  Only the
  ASCII letters have a case: \<open>toLowerCase\<close> maps \<open>A..Z\<close> to \<open>a..z\<close> and leaves every other
  character alone.
\<close>

definition lower_char :: "char \<Rightarrow> char" where
  "lower_char c =
     (if CHR ''A'' \<le> c \<and> c \<le> CHR ''Z'' then char_of (of_char c + (32::nat)) else c)"

definition toLowerCase :: "string \<Rightarrow> string" where
  "toLowerCase s = map lower_char s"

text \<open>\<open>startsWith s p\<close> is \<open>s.startsWith(p)\<close>; \<open>endsWith s p\<close> is \<open>s.endsWith(p)\<close>.\<close>

fun startsWith :: "string \<Rightarrow> string \<Rightarrow> bool" where
  "startsWith s [] = True"
| "startsWith [] (p # ps) = False"
| "startsWith (c # cs) (p # ps) = (c = p \<and> startsWith cs ps)"

definition endsWith :: "string \<Rightarrow> string \<Rightarrow> bool" where
  "endsWith s p = startsWith (rev s) (rev p)"

text \<open>\<open>js_includes s p\<close> is \<open>s.includes(p)\<close>: \<open>p\<close> occurs in \<open>s\<close> as a contiguous block.\<close>

fun js_includes :: "string \<Rightarrow> string \<Rightarrow> bool" where
  "js_includes [] p = (p = [])"
| "js_includes (c # cs) p = (startsWith (c # cs) p \<or> js_includes cs p)"

text \<open>
  \<open>split_on sep s\<close> is \<open>s.split(sep)\<close> for a one-character separator: the pieces between
  the separators, empty pieces included (\<open>"".split(' ')\<close> is \<open>[""]\<close>, and
  \<open>"a  b".split(' ')\<close> is \<open>["a", "", "b"]\<close>).
\<close>

fun split_on :: "char \<Rightarrow> string \<Rightarrow> string list" where
  "split_on sep [] = [[]]"
| "split_on sep (c # cs) =
     (if c = sep then [] # split_on sep cs
      else (case split_on sep cs of
              [] \<Rightarrow> [[c]]
            | w # ws \<Rightarrow> (c # w) # ws))"

section \<open>Numbers\<close>

text \<open>
  The relevance score is a JavaScript number.  The model keeps the three special values a
  division of lengths and the later sums and differences can produce, and computes the
  finite values exactly, as rationals: the rounding of the double-precision sums is not
  modelled.
\<close>

datatype number = Num rat | PosInf | NegInf | NaN

fun js_add :: "number \<Rightarrow> number \<Rightarrow> number" where
  "js_add (Num a) (Num b) = Num (a + b)"
| "js_add NaN y = NaN"
| "js_add x NaN = NaN"
| "js_add PosInf NegInf = NaN"
| "js_add NegInf PosInf = NaN"
| "js_add PosInf y = PosInf"
| "js_add x PosInf = PosInf"
| "js_add NegInf y = NegInf"
| "js_add x NegInf = NegInf"

fun js_neg :: "number \<Rightarrow> number" where
  "js_neg (Num a) = Num (- a)"
| "js_neg PosInf = NegInf"
| "js_neg NegInf = PosInf"
| "js_neg NaN = NaN"

definition js_sub :: "number \<Rightarrow> number \<Rightarrow> number" where
  "js_sub x y = js_add x (js_neg y)"

text \<open>\<open>js_div a b\<close> is \<open>a / b\<close> for two lengths: \<open>0 / 0\<close> is \<open>NaN\<close>, \<open>a / 0\<close> is \<open>Infinity\<close>.\<close>

definition js_div :: "nat \<Rightarrow> nat \<Rightarrow> number" where
  "js_div a b =
     (if b = 0 then (if a = 0 then NaN else PosInf) else Num (of_nat a / of_nat b))"


text \<open>\<open>positive v\<close>: the comparator result \<open>v\<close> is greater than zero.\<close>

fun positive :: "number \<Rightarrow> bool" where
  "positive (Num a) = (0 < a)"
| "positive PosInf = True"
| "positive NegInf = False"
| "positive NaN = False"

section \<open>The data model\<close>

record ProjectInfo =
  pi_name :: string
  pi_type :: string
  pi_description :: string
  pi_createdAt :: string
  pi_lastUpdated :: string

record ComponentStatus =
  cs_status :: string
  cs_progress :: int
  cs_details :: "string option"
  cs_lastUpdated :: string

record ArchitectureDecision =
  ad_id :: string
  decision :: string
  rationale :: string
  impact :: "string option"
  alternatives :: "string list option"
  ad_date :: string
  ad_tags :: "string list option"

record WorkingSolution =
  ws_id :: string
  problem :: string
  solution :: string
  command :: "string option"
  ws_tags :: "string list option"
  ws_date :: string
  successCount :: int

record ConversationContext =
  cc_id :: string
  summary :: string
  decisions_made :: "string list option"
  solutions_found :: "string list option"
  cc_date :: string

record ImplementationStatus =
  overall_progress :: string
  components :: "(string \<times> ComponentStatus) list"

record Architecture =
  technologies :: "string list"
  decisions :: "ArchitectureDecision list"

record Metadata =
  version :: string
  created_at :: string
  last_updated :: string

text \<open>
  The two \<open>Record<string, _>\<close> objects are association lists in the order in which
  \<open>Object.values\<close> enumerates them.
\<close>

record ProjectMemory =
  project_info :: ProjectInfo
  implementation_status :: ImplementationStatus
  architecture :: Architecture
  working_solutions :: "(string \<times> WorkingSolution) list"
  current_priorities :: "string list"
  conversations :: "ConversationContext list"
  metadata :: Metadata

section \<open>Search\<close>

datatype MemoryRecord =
    DecisionData ArchitectureDecision
  | SolutionData WorkingSolution
  | ConversationData ConversationContext

record SearchResult =
  r_type :: string
  relevance :: number
  r_data :: MemoryRecord

text \<open>\<open>calculateRelevance\<close>: the inner loop over the words of the text, then the outer loop
  over the words of the query.\<close>

definition score_text_words :: "string \<Rightarrow> string list \<Rightarrow> number \<Rightarrow> number" where
  "score_text_words queryWord textWords score =
     fold (\<lambda>textWord sc.
             if js_includes textWord queryWord
             then js_add sc (js_div (length queryWord) (length textWord))
             else sc)
          textWords score"

definition calculateRelevance :: "string \<Rightarrow> string \<Rightarrow> number" where
  "calculateRelevance query text =
     (let textLower = toLowerCase text;
          score = (if js_includes textLower query then js_add (Num 0) (Num 10) else Num 0);
          queryWords = split_on CHR '' '' query;
          textWords = split_on CHR '' '' textLower
      in fold (\<lambda>queryWord sc. score_text_words queryWord textWords sc) queryWords score)"

text \<open>The comparator \<open>(a, b) => b.relevance - a.relevance\<close>.\<close>

definition compare_relevance :: "SearchResult \<Rightarrow> SearchResult \<Rightarrow> number" where
  "compare_relevance a b = js_sub (relevance b) (relevance a)"

text \<open>
  \<open>Array.prototype.sort\<close> with a comparator, as a stable insertion sort: an element moves
  behind a later one only when the comparator is positive on the pair, and a \<open>NaN\<close> from the
  comparator counts as zero.  On a comparator that is a consistent order every stable sort
  returns this list; on an inconsistent one (a \<open>NaN\<close> score) the language leaves the order to
  the engine, and this is one of the orders it may return.
\<close>

fun sort_insert :: "('a \<Rightarrow> 'a \<Rightarrow> number) \<Rightarrow> 'a \<Rightarrow> 'a list \<Rightarrow> 'a list" where
  "sort_insert cmp x [] = [x]"
| "sort_insert cmp x (y # ys) =
     (if positive (cmp x y) then y # sort_insert cmp x ys else x # y # ys)"

definition js_sort :: "('a \<Rightarrow> 'a \<Rightarrow> number) \<Rightarrow> 'a list \<Rightarrow> 'a list" where
  "js_sort cmp xs = foldr (sort_insert cmp) xs []"

text \<open>\<open>slice0 xs n\<close> is \<open>xs.slice(0, n)\<close>; a negative \<open>n\<close> counts from the end.\<close>

definition slice0 :: "'a list \<Rightarrow> int \<Rightarrow> 'a list" where
  "slice0 xs n =
     (if n < 0 then take (nat (int (length xs) + n)) xs else take (nat n) xs)"

text \<open>\<open>slice_from xs n\<close> is \<open>xs.slice(n)\<close>; a negative \<open>n\<close> counts from the end, and
  \<open>-0\<close> is \<open>0\<close>.\<close>

definition slice_from :: "'a list \<Rightarrow> int \<Rightarrow> 'a list" where
  "slice_from xs n =
     (if n < 0 then drop (nat (int (length xs) + n)) xs else drop (nat n) xs)"

definition decision_matches :: "string \<Rightarrow> ArchitectureDecision \<Rightarrow> bool" where
  "decision_matches queryLower d =
     (js_includes (toLowerCase (decision d)) queryLower \<or>
      js_includes (toLowerCase (rationale d)) queryLower)"

definition decision_result :: "string \<Rightarrow> ArchitectureDecision \<Rightarrow> SearchResult" where
  "decision_result queryLower d =
     \<lparr> r_type = ''decision'',
       relevance = calculateRelevance queryLower (decision d @ '' '' @ rationale d),
       r_data = DecisionData d \<rparr>"

definition solution_matches :: "string \<Rightarrow> WorkingSolution \<Rightarrow> bool" where
  "solution_matches queryLower w =
     (js_includes (toLowerCase (problem w)) queryLower \<or>
      js_includes (toLowerCase (solution w)) queryLower)"

definition solution_result :: "string \<Rightarrow> WorkingSolution \<Rightarrow> SearchResult" where
  "solution_result queryLower w =
     \<lparr> r_type = ''solution'',
       relevance = calculateRelevance queryLower (problem w @ '' '' @ solution w),
       r_data = SolutionData w \<rparr>"

definition conversation_matches :: "string \<Rightarrow> ConversationContext \<Rightarrow> bool" where
  "conversation_matches queryLower c = js_includes (toLowerCase (summary c)) queryLower"

definition conversation_result :: "string \<Rightarrow> ConversationContext \<Rightarrow> SearchResult" where
  "conversation_result queryLower c =
     \<lparr> r_type = ''conversation'',
       relevance = calculateRelevance queryLower (summary c),
       r_data = ConversationData c \<rparr>"

text \<open>The \<open>results\<close> array of \<open>searchMemory\<close> after its three scans, before the sort.\<close>

definition scan_results :: "ProjectMemory \<Rightarrow> string \<Rightarrow> SearchResult list" where
  "scan_results m queryLower =
     map (decision_result queryLower)
         (filter (decision_matches queryLower) (decisions (architecture m)))
     @ map (solution_result queryLower)
         (filter (solution_matches queryLower) (map snd (working_solutions m)))
     @ map (conversation_result queryLower)
         (filter (conversation_matches queryLower) (conversations m))"

text \<open>\<open>searchMemory\<close>, with the limit given (a call without one takes 10).\<close>

definition searchMemory :: "ProjectMemory \<Rightarrow> string \<Rightarrow> int \<Rightarrow> SearchResult list" where
  "searchMemory m query limit =
     (let queryLower = toLowerCase query
      in slice0 (js_sort compare_relevance (scan_results m queryLower)) limit)"

subsection \<open>The notions the search properties are stated with\<close>

text \<open>The text of a record that \<open>searchMemory\<close> hands to \<open>calculateRelevance\<close>.\<close>

fun record_text :: "MemoryRecord \<Rightarrow> string" where
  "record_text (DecisionData d) = decision d @ '' '' @ rationale d"
| "record_text (SolutionData w) = problem w @ '' '' @ solution w"
| "record_text (ConversationData c) = summary c"

text \<open>The fields of a record that the admission test of \<open>searchMemory\<close> looks at.\<close>

fun record_fields :: "MemoryRecord \<Rightarrow> string list" where
  "record_fields (DecisionData d) = [decision d, rationale d]"
| "record_fields (SolutionData w) = [problem w, solution w]"
| "record_fields (ConversationData c) = [summary c]"

text \<open>The admission test of the three scans: some field, lowercased, contains the
  lowercased query.\<close>

definition field_match :: "string \<Rightarrow> MemoryRecord \<Rightarrow> bool" where
  "field_match queryLower rec =
     list_ex (\<lambda>f. js_includes (toLowerCase f) queryLower) (record_fields rec)"

text \<open>All records of the store, in scan order.\<close>

definition all_records :: "ProjectMemory \<Rightarrow> MemoryRecord list" where
  "all_records m =
     map DecisionData (decisions (architecture m))
     @ map SolutionData (map snd (working_solutions m))
     @ map ConversationData (conversations m)"





text \<open>
  The admission test in the words of the specification: the whole lowercased text contains
  the whole lowercased query, or some whitespace-delimited token of the query occurs in some
  token of the text.
\<close>

definition is_whitespace :: "char \<Rightarrow> bool" where
  "is_whitespace c = (c = CHR '' '' \<or> c = CHR 0x09 \<or> c = CHR 0x0A \<or> c = CHR 0x0D)"

fun whitespace_pieces :: "string \<Rightarrow> string list" where
  "whitespace_pieces [] = [[]]"
| "whitespace_pieces (c # cs) =
     (if is_whitespace c then [] # whitespace_pieces cs
      else (case whitespace_pieces cs of
              [] \<Rightarrow> [[c]]
            | w # ws \<Rightarrow> (c # w) # ws))"

definition spec_tokens :: "string \<Rightarrow> string list" where
  "spec_tokens s = filter (\<lambda>w. w \<noteq> []) (whitespace_pieces s)"

definition spec_admits :: "string \<Rightarrow> string \<Rightarrow> bool" where
  "spec_admits query text =
     (let queryLower = toLowerCase query; textLower = toLowerCase text
      in js_includes textLower queryLower \<or>
         list_ex (\<lambda>q. list_ex (\<lambda>t. js_includes t q) (spec_tokens textLower))
                 (spec_tokens queryLower))"

section \<open>The store\<close>

record ProjectContext =
  ctx_project_name :: string
  ctx_project_type :: string
  ctx_project_description :: string
  ctx_project_root :: string
  ctx_overall_progress :: string
  ctx_components :: "(string \<times> ComponentStatus) list"
  ctx_priorities :: "string list"
  ctx_technologies :: "string list"
  ctx_recent_decisions :: "ArchitectureDecision list"
  ctx_solutions :: "(string \<times> WorkingSolution) list"
  ctx_recent_conversations :: "ConversationContext list"
  ctx_last_updated :: string

record ServerConfig =
  max_conversation_history :: int
  backup_enabled :: bool
  backup_interval :: int
  compression_enabled :: bool
  auto_detect_project_type :: bool

text \<open>
  What an operation reads from outside the store: the constructor's options and
  configuration, and, for the one call, the time \<open>new Date().toISOString()\<close> returns, the
  identifier \<open>generateId\<close> returns, the outcome of the file probes of \<open>detectProjectType\<close>,
  and whether the file system accepts the writes of this call (\<open>fs_ok\<close>).  The clock is
  read as one value for the whole call.
\<close>

record env =
  projectRoot :: string
  projectName :: string
  config :: ServerConfig
  detected_type :: string
  now :: string
  fresh_id :: string
  fs_ok :: bool

text \<open>
  The state: the \<open>memory\<close> field of the manager, and the files it writes (the memory file,
  the context snapshot, the backup directory as a list of file names with their contents).
\<close>

record store =
  memory :: ProjectMemory
  memory_file :: "ProjectMemory option"
  context_file :: "ProjectContext option"
  backups :: "(string \<times> ProjectMemory) list"

datatype error = Error string | IOError

text \<open>The glyph that opens the confirmation of \<open>clearMemory\<close>, as its UTF-8 bytes.\<close>

definition check_mark :: string where
  "check_mark = [CHR 0xE2, CHR 0x9C, CHR 0x85]"

definition getCurrentContext :: "env \<Rightarrow> ProjectMemory \<Rightarrow> ProjectContext" where
  "getCurrentContext e m =
     \<lparr> ctx_project_name = pi_name (project_info m),
       ctx_project_type = pi_type (project_info m),
       ctx_project_description = pi_description (project_info m),
       ctx_project_root = projectRoot e,
       ctx_overall_progress = overall_progress (implementation_status m),
       ctx_components = components (implementation_status m),
       ctx_priorities = current_priorities m,
       ctx_technologies = technologies (architecture m),
       ctx_recent_decisions = slice_from (decisions (architecture m)) (- 5),
       ctx_solutions = working_solutions m,
       ctx_recent_conversations = slice_from (conversations m) (- 5),
       ctx_last_updated = last_updated (metadata m) \<rparr>"

text \<open>\<open>toISOString().replace(/[:.]/g, '-')\<close>.\<close>

definition backup_timestamp :: "string \<Rightarrow> string" where
  "backup_timestamp t = map (\<lambda>c. if c = CHR '':'' \<or> c = CHR ''.'' then CHR ''-'' else c) t"

text \<open>
  \<open>createBackup\<close>: write the backup file, then keep the ten backup files whose names come
  last in sorted order.  Every failure inside is caught and dropped, so the operation
  returns the state alone.
\<close>

definition createBackup :: "env \<Rightarrow> store \<Rightarrow> store" where
  "createBackup e s =
     (if \<not> fs_ok e then s
      else
        let backupFile = ''memory_backup_'' @ backup_timestamp (now e) @ ''.json'';
            dir = AList.update backupFile (memory s) (backups s);
            backupFiles =
              rev (sort (filter (\<lambda>f. startsWith f ''memory_backup_'' \<and> endsWith f ''.json'')
                                (map fst dir)))
        in if length backupFiles > 10
           then s\<lparr> backups := filter (\<lambda>(f, _). f \<notin> set (drop 10 backupFiles)) dir \<rparr>
           else s\<lparr> backups := dir \<rparr>)"

text \<open>
  \<open>saveMemory\<close>: the timestamp is set before the first write, so a failing write leaves
  the bumped timestamp in memory and rethrows.
\<close>

definition saveMemory :: "env \<Rightarrow> store \<Rightarrow> (error + unit) \<times> store" where
  "saveMemory e s =
     (let m1 = (memory s)\<lparr> metadata := (metadata (memory s))\<lparr> last_updated := now e \<rparr> \<rparr>;
          s1 = s\<lparr> memory := m1 \<rparr>
      in if \<not> fs_ok e then (Inl IOError, s1)
         else
           let s2 = s1\<lparr> memory_file := Some m1,
                        context_file := Some (getCurrentContext e m1) \<rparr>;
               s3 = (if backup_enabled (config e) then createBackup e s2 else s2)
           in (Inr (), s3))"

definition updateImplementationStatus ::
  "env \<Rightarrow> string \<Rightarrow> string \<Rightarrow> string option \<Rightarrow> int option \<Rightarrow> store \<Rightarrow> (error + unit) \<times> store"
where
  "updateImplementationStatus e component status details progress s =
     (let entry = \<lparr> cs_status = status,
                     cs_progress = (case progress of None \<Rightarrow> 0 | Some p \<Rightarrow> p),
                     cs_details = details,
                     cs_lastUpdated = now e \<rparr>;
          m = memory s;
          st = implementation_status m
      in saveMemory e
           (s\<lparr> memory := m\<lparr> implementation_status :=
                               st\<lparr> components := AList.update component entry (components st) \<rparr> \<rparr> \<rparr>))"

definition addArchitectureDecision ::
  "env \<Rightarrow> string \<Rightarrow> string \<Rightarrow> string option \<Rightarrow> string list option \<Rightarrow> store
     \<Rightarrow> (error + unit) \<times> store"
where
  "addArchitectureDecision e dec rat imp alts s =
     (let newDecision = \<lparr> ad_id = fresh_id e, decision = dec, rationale = rat, impact = imp,
                           alternatives = alts, ad_date = now e, ad_tags = Some [] \<rparr>;
          m = memory s;
          a = architecture m
      in saveMemory e
           (s\<lparr> memory := m\<lparr> architecture := a\<lparr> decisions := decisions a @ [newDecision] \<rparr> \<rparr> \<rparr>))"

definition addWorkingSolution ::
  "env \<Rightarrow> string \<Rightarrow> string \<Rightarrow> string option \<Rightarrow> string list option \<Rightarrow> store
     \<Rightarrow> (error + unit) \<times> store"
where
  "addWorkingSolution e prob sol cmd tags s =
     (let ident = fresh_id e;
          newSolution = \<lparr> ws_id = ident, problem = prob, solution = sol, command = cmd,
                           ws_tags = (case tags of None \<Rightarrow> Some [] | Some t \<Rightarrow> Some t),
                           ws_date = now e, successCount = 1 \<rparr>;
          m = memory s
      in saveMemory e
           (s\<lparr> memory := m\<lparr> working_solutions :=
                               AList.update ident newSolution (working_solutions m) \<rparr> \<rparr>))"

definition updatePriorities :: "env \<Rightarrow> string list \<Rightarrow> store \<Rightarrow> (error + unit) \<times> store" where
  "updatePriorities e priorities s =
     saveMemory e (s\<lparr> memory := (memory s)\<lparr> current_priorities := priorities \<rparr> \<rparr>)"

text \<open>
  \<open>logConversationContext\<close>: push, then, when the length exceeds the configured maximum,
  keep \<open>slice(-max)\<close>.
\<close>

definition logConversationContext ::
  "env \<Rightarrow> string \<Rightarrow> string list option \<Rightarrow> string list option \<Rightarrow> store
     \<Rightarrow> (error + unit) \<times> store"
where
  "logConversationContext e summ dm sf s =
     (let context = \<lparr> cc_id = fresh_id e, summary = summ, decisions_made = dm,
                       solutions_found = sf, cc_date = now e \<rparr>;
          pushed = conversations (memory s) @ [context];
          kept = (if int (length pushed) > max_conversation_history (config e)
                  then slice_from pushed (- max_conversation_history (config e))
                  else pushed)
      in saveMemory e (s\<lparr> memory := (memory s)\<lparr> conversations := kept \<rparr> \<rparr>))"

text \<open>
  \<open>clearMemory\<close>: the optional backup first, then the switch on the scope, whose default
  branch throws before \<open>saveMemory\<close> is reached.  \<open>x || now\<close> on a string takes \<open>now\<close> when
  the string is empty.
\<close>

definition reset_memory :: "env \<Rightarrow> ProjectMemory \<Rightarrow> ProjectMemory" where
  "reset_memory e m =
     \<lparr> project_info =
         \<lparr> pi_name = projectName e,
           pi_type = (if auto_detect_project_type (config e) then detected_type e
                      else ''unknown''),
           pi_description = [],
           pi_createdAt = (if pi_createdAt (project_info m) = [] then now e
                           else pi_createdAt (project_info m)),
           pi_lastUpdated = now e \<rparr>,
       implementation_status = \<lparr> overall_progress = ''unknown'', components = [] \<rparr>,
       architecture = \<lparr> technologies = [], decisions = [] \<rparr>,
       working_solutions = [],
       current_priorities = [],
       conversations = [],
       metadata =
         \<lparr> version = ''1.0.0'',
           created_at = (if created_at (metadata m) = [] then now e
                         else created_at (metadata m)),
           last_updated = now e \<rparr> \<rparr>"

definition clearMemory :: "env \<Rightarrow> string \<Rightarrow> bool \<Rightarrow> store \<Rightarrow> (error + string) \<times> store" where
  "clearMemory e scope withBackup s =
     (let s1 = (if withBackup then createBackup e s else s);
          m = memory s1;
          cleared =
            (if scope = ''all'' then Some (reset_memory e m)
             else if scope = ''decisions''
               then Some (m\<lparr> architecture := (architecture m)\<lparr> decisions := [] \<rparr> \<rparr>)
             else if scope = ''solutions'' then Some (m\<lparr> working_solutions := [] \<rparr>)
             else if scope = ''conversations'' then Some (m\<lparr> conversations := [] \<rparr>)
             else if scope = ''components''
               then Some (m\<lparr> implementation_status :=
                               (implementation_status m)
                                 \<lparr> components := [], overall_progress := ''unknown'' \<rparr> \<rparr>)
             else None)
      in case cleared of
           None \<Rightarrow>
             (Inl (Error (''Unknown scope: '' @ scope
                          @ ''. Use: all, decisions, solutions, conversations, or components'')),
              s1)
         | Some m' \<Rightarrow>
             (case saveMemory e (s1\<lparr> memory := m' \<rparr>) of
                (Inl err, s2) \<Rightarrow> (Inl err, s2)
              | (Inr _, s2) \<Rightarrow>
                  (Inr (check_mark @ '' Successfully cleared '' @ scope @ '' memory''
                        @ (if withBackup then '' (backup created)'' else [])),
                   s2)))"

text \<open>The conversation a call of \<open>logConversationContext\<close> appends, and a run of calls
  that log one summary each.\<close>

definition logged_conversation :: "env \<Rightarrow> string \<Rightarrow> ConversationContext" where
  "logged_conversation e summ =
     \<lparr> cc_id = fresh_id e, summary = summ, decisions_made = None, solutions_found = None,
       cc_date = now e \<rparr>"

definition log_all :: "env \<Rightarrow> string list \<Rightarrow> store \<Rightarrow> store" where
  "log_all e summaries s =
     fold (\<lambda>summ st. snd (logConversationContext e summ None None st)) summaries s"

section \<open>Untyped values\<close>

text \<open>
  What \<open>readJson\<close> returns and what a tool call carries as arguments: a JSON value, or
  \<open>undefined\<close>.  Numbers are integers here; no property below depends on a fraction.
\<close>

datatype jsval =
    JUndefined
  | JNull
  | JBool bool
  | JNum int
  | JStr string
  | JArr "jsval list"
  | JObj "(string \<times> jsval) list"

text \<open>Truthiness, as \<open>||\<close>, \<open>&&\<close> and \<open>!\<close> see it.\<close>

fun truthy :: "jsval \<Rightarrow> bool" where
  "truthy JUndefined = False"
| "truthy JNull = False"
| "truthy (JBool b) = b"
| "truthy (JNum n) = (n \<noteq> 0)"
| "truthy (JStr s) = (s \<noteq> [])"
| "truthy (JArr xs) = True"
| "truthy (JObj kvs) = True"

definition js_or :: "jsval \<Rightarrow> jsval \<Rightarrow> jsval" where
  "js_or a b = (if truthy a then a else b)"

text \<open>
  \<open>get_opt v k\<close> is \<open>v?.k\<close> for the property names the code reads: the value under the key
  in an object, \<open>undefined\<close> on a missing key and on every value that is not an object
  (none of the names is a property of an array, a string, a number or a boolean).
\<close>

fun get_opt :: "jsval \<Rightarrow> string \<Rightarrow> jsval" where
  "get_opt (JObj kvs) k = (case map_of kvs k of Some v \<Rightarrow> v | None \<Rightarrow> JUndefined)"
| "get_opt v k = JUndefined"

fun isArray :: "jsval \<Rightarrow> bool" where
  "isArray (JArr xs) = True"
| "isArray v = False"

text \<open>\<open>typeof v === 'object'\<close>: true of objects, arrays and \<open>null\<close>.\<close>

fun typeof_object :: "jsval \<Rightarrow> bool" where
  "typeof_object (JObj kvs) = True"
| "typeof_object (JArr xs) = True"
| "typeof_object JNull = True"
| "typeof_object v = False"

text \<open>A mapping in the sense of the data model: an object that is not an array.\<close>

fun isMapping :: "jsval \<Rightarrow> bool" where
  "isMapping (JObj kvs) = True"
| "isMapping v = False"

text \<open>
  \<open>validateAndMigrateMemory\<close>.  The result is the object literal the function builds; its
  fields hold whatever the input held where the test of the field lets it through.
\<close>

definition validateAndMigrateMemory :: "env \<Rightarrow> jsval \<Rightarrow> jsval" where
  "validateAndMigrateMemory e mem =
     (let info = get_opt mem ''project_info'';
          status = get_opt mem ''implementation_status'';
          arch = get_opt mem ''architecture'';
          meta = get_opt mem ''metadata''
      in JObj
        [(''project_info'', JObj
            [(''name'', js_or (get_opt info ''name'') (JStr (projectName e))),
             (''type'', js_or (get_opt info ''type'')
                         (JStr (if auto_detect_project_type (config e) then detected_type e
                                else ''unknown''))),
             (''description'', js_or (get_opt info ''description'') (JStr [])),
             (''createdAt'', js_or (get_opt info ''createdAt'') (JStr (now e))),
             (''lastUpdated'', js_or (get_opt info ''lastUpdated'') (JStr (now e)))]),
         (''implementation_status'', JObj
            [(''overall_progress'', js_or (get_opt status ''overall_progress'') (JStr ''unknown'')),
             (''components'', js_or (get_opt status ''components'') (JObj []))]),
         (''architecture'', JObj
            [(''technologies'', if isArray (get_opt arch ''technologies'')
                                then get_opt arch ''technologies'' else JArr []),
             (''decisions'', if isArray (get_opt arch ''decisions'')
                             then get_opt arch ''decisions'' else JArr [])]),
         (''working_solutions'',
            if truthy (get_opt mem ''working_solutions'')
               \<and> typeof_object (get_opt mem ''working_solutions'')
            then get_opt mem ''working_solutions'' else JObj []),
         (''current_priorities'', if isArray (get_opt mem ''current_priorities'')
                                  then get_opt mem ''current_priorities'' else JArr []),
         (''conversations'', if isArray (get_opt mem ''conversations'')
                             then get_opt mem ''conversations'' else JArr []),
         (''metadata'', JObj
            [(''version'', js_or (get_opt meta ''version'') (JStr ''1.0.0'')),
             (''created_at'', js_or (get_opt meta ''created_at'') (JStr (now e))),
             (''last_updated'', JStr (now e))])])"

text \<open>
  \<open>loadMemory\<close> on an existing file: the parsed file goes through
  \<open>validateAndMigrateMemory\<close>; a file that does not parse (\<open>None\<close>) gives the default
  memory, as a missing file does.
\<close>

definition default_memory :: "env \<Rightarrow> jsval" where
  "default_memory e =
     JObj
       [(''project_info'', JObj
           [(''name'', JStr (projectName e)),
            (''type'', JStr (if auto_detect_project_type (config e) then detected_type e
                             else ''unknown'')),
            (''description'', JStr []),
            (''createdAt'', JStr (now e)),
            (''lastUpdated'', JStr (now e))]),
        (''implementation_status'', JObj
           [(''overall_progress'', JStr ''unknown''), (''components'', JObj [])]),
        (''architecture'', JObj [(''technologies'', JArr []), (''decisions'', JArr [])]),
        (''working_solutions'', JObj []),
        (''current_priorities'', JArr []),
        (''conversations'', JArr []),
        (''metadata'', JObj
           [(''version'', JStr ''1.0.0''),
            (''created_at'', JStr (now e)),
            (''last_updated'', JStr (now e))])]"

definition loadMemory :: "env \<Rightarrow> jsval option option \<Rightarrow> jsval" where
  "loadMemory e file =
     (case file of
        Some (Some parsed) \<Rightarrow> validateAndMigrateMemory e parsed
      | _ \<Rightarrow> default_memory e)"

section \<open>The tool gateway\<close>

text \<open>
  The store as the gateway sees it: a call with the argument values as they arrive, carried
  out on a state of the store and answered with a value or a thrown error.  The gateway is
  a function of this interface, so what it proves holds for every store behind it.
\<close>

datatype store_call =
    GetCurrentContext
  | UpdateImplementationStatus jsval jsval jsval jsval
  | AddArchitectureDecision jsval jsval jsval jsval
  | AddWorkingSolution jsval jsval jsval jsval
  | UpdatePriorities jsval
  | SearchMemory jsval jsval
  | LogConversationContext jsval jsval jsval
  | ClearMemory jsval jsval

text \<open>A thrown value: an \<open>Error\<close> with its message, or a \<open>TypeError\<close> of the engine, whose
  wording is the engine's.\<close>

datatype js_error = JsError string | JsTypeError

type_synonym 'st store_interface = "store_call \<Rightarrow> 'st \<Rightarrow> (js_error + jsval) \<times> 'st"

text \<open>
  The text content of a result: a string; the value \<open>JSON.stringify\<close> is applied to; a
  value handed over as it is; or \<open>Error executing <name>: <message>\<close>, kept as the tool name
  and the error caught.
\<close>

datatype response =
    Text string
  | Json jsval
  | Raw jsval
  | ErrorExecuting string js_error

text \<open>The glyph that opens the confirmation request of \<open>clear_memory\<close>, as UTF-8 bytes.\<close>

definition warning_sign :: string where
  "warning_sign = [CHR 0xE2, CHR 0x9A, CHR 0xA0, CHR 0xEF, CHR 0xB8, CHR 0x8F]"

text \<open>The decimal text of a number, and the string a template literal makes of a value.\<close>

definition digit_char :: "nat \<Rightarrow> char" where
  "digit_char d = ''0123456789'' ! d"

fun decimal_digits :: "nat \<Rightarrow> string \<Rightarrow> string" where
  "decimal_digits n acc =
     (if n < 10 then digit_char n # acc
      else decimal_digits (n div 10) (digit_char (n mod 10) # acc))"

definition number_text :: "int \<Rightarrow> string" where
  "number_text i =
     (if 0 \<le> i then decimal_digits (nat i) []
      else CHR ''-'' # decimal_digits (nat (- i)) [])"

fun join_comma :: "string list \<Rightarrow> string" where
  "join_comma [] = []"
| "join_comma [s] = s"
| "join_comma (s # t # ts) = s @ '','' @ join_comma (t # ts)"

fun js_to_string :: "jsval \<Rightarrow> string" where
  "js_to_string JUndefined = ''undefined''"
| "js_to_string JNull = ''null''"
| "js_to_string (JBool b) = (if b then ''true'' else ''false'')"
| "js_to_string (JNum n) = number_text n"
| "js_to_string (JStr s) = s"
| "js_to_string (JArr xs) =
     join_comma (map (\<lambda>x. case x of JUndefined \<Rightarrow> [] | JNull \<Rightarrow> []
                                | _ \<Rightarrow> js_to_string x) xs)"
| "js_to_string (JObj kvs) = ''[object Object]''"

text \<open>\<open>const { k } = args\<close>: a \<open>TypeError\<close> on \<open>undefined\<close> and \<open>null\<close>; \<open>k = d\<close> takes
  the default \<open>d\<close> when the property is \<open>undefined\<close>.\<close>

definition destructurable :: "jsval \<Rightarrow> bool" where
  "destructurable args = (args \<noteq> JUndefined \<and> args \<noteq> JNull)"

definition with_default :: "jsval \<Rightarrow> jsval \<Rightarrow> jsval" where
  "with_default v d = (if v = JUndefined then d else v)"

text \<open>What a handler does after the store has answered: a thrown error passes through.\<close>

definition after_call ::
  "(js_error + jsval) \<times> 'st \<Rightarrow> (jsval \<Rightarrow> js_error + response) \<Rightarrow> (js_error + response) \<times> 'st"
where
  "after_call r k =
     (case r of
        (Inl err, st') \<Rightarrow> (Inl err, st')
      | (Inr v, st') \<Rightarrow> (k v, st'))"

definition handleGetProjectContext ::
  "'st store_interface \<Rightarrow> 'st \<Rightarrow> (js_error + response) \<times> 'st"
where
  "handleGetProjectContext exec st =
     after_call (exec GetCurrentContext st)
       (\<lambda>context.
          if \<not> destructurable context then Inl JsTypeError
          else Inr (Json (JObj
            [(''project_overview'', JObj
                [(''name'', get_opt context ''project_name''),
                 (''type'', get_opt context ''project_type''),
                 (''description'', get_opt context ''project_description''),
                 (''progress'', get_opt context ''overall_progress'')]),
             (''current_priorities'', get_opt context ''priorities''),
             (''recent_activity'', JObj
                [(''decisions'', get_opt context ''recent_decisions''),
                 (''conversations'', get_opt context ''recent_conversations'')]),
             (''implementation_status'', JObj
                [(''components'', get_opt context ''components''),
                 (''overall_progress'', get_opt context ''overall_progress'')]),
             (''architecture'', JObj
                [(''technologies'', get_opt context ''technologies''),
                 (''recent_decisions'', get_opt context ''recent_decisions'')]),
             (''working_solutions'', get_opt context ''solutions''),
             (''last_updated'', get_opt context ''last_updated'')])))"

definition handleUpdateImplementationStatus ::
  "'st store_interface \<Rightarrow> jsval \<Rightarrow> 'st \<Rightarrow> (js_error + response) \<times> 'st"
where
  "handleUpdateImplementationStatus exec args st =
     (if \<not> destructurable args then (Inl JsTypeError, st)
      else
        let component = get_opt args ''component'';
            status = get_opt args ''status'';
            details = get_opt args ''details'';
            progress = get_opt args ''progress''
        in after_call (exec (UpdateImplementationStatus component status details progress) st)
             (\<lambda>_. Inr (Text (''Successfully updated '' @ js_to_string component
                               @ '' status to '' @ js_to_string status
                               @ (if progress \<noteq> JUndefined
                                  then '' ('' @ js_to_string progress @ ''%)'' else [])))))"

definition handleAddArchitectureDecision ::
  "'st store_interface \<Rightarrow> jsval \<Rightarrow> 'st \<Rightarrow> (js_error + response) \<times> 'st"
where
  "handleAddArchitectureDecision exec args st =
     (if \<not> destructurable args then (Inl JsTypeError, st)
      else
        let dec = get_opt args ''decision'';
            rat = get_opt args ''rationale'';
            imp = get_opt args ''impact'';
            alts = get_opt args ''alternatives''
        in after_call (exec (AddArchitectureDecision dec rat imp alts) st)
             (\<lambda>_. Inr (Text (''Successfully recorded architecture decision: ''
                               @ js_to_string dec))))"

definition handleAddWorkingSolution ::
  "'st store_interface \<Rightarrow> jsval \<Rightarrow> 'st \<Rightarrow> (js_error + response) \<times> 'st"
where
  "handleAddWorkingSolution exec args st =
     (if \<not> destructurable args then (Inl JsTypeError, st)
      else
        let prob = get_opt args ''problem'';
            sol = get_opt args ''solution'';
            cmd = get_opt args ''command'';
            tags = get_opt args ''tags''
        in after_call (exec (AddWorkingSolution prob sol cmd tags) st)
             (\<lambda>_. Inr (Text (''Successfully recorded working solution for: ''
                               @ js_to_string prob))))"

text \<open>\<open>v.length\<close> as the handlers read it: a \<open>TypeError\<close> on \<open>undefined\<close> and \<open>null\<close>, the
  length of an array or a string, \<open>undefined\<close> otherwise.\<close>

fun js_length :: "jsval \<Rightarrow> js_error + jsval" where
  "js_length JUndefined = Inl JsTypeError"
| "js_length JNull = Inl JsTypeError"
| "js_length (JArr xs) = Inr (JNum (int (length xs)))"
| "js_length (JStr s) = Inr (JNum (int (length s)))"
| "js_length v = Inr JUndefined"

definition handleUpdatePriorities ::
  "'st store_interface \<Rightarrow> jsval \<Rightarrow> 'st \<Rightarrow> (js_error + response) \<times> 'st"
where
  "handleUpdatePriorities exec args st =
     (if \<not> destructurable args then (Inl JsTypeError, st)
      else
        let priorities = get_opt args ''priorities''
        in after_call (exec (UpdatePriorities priorities) st)
             (\<lambda>_. case js_length priorities of
                     Inl err \<Rightarrow> Inl err
                   | Inr n \<Rightarrow> Inr (Text (''Successfully updated priorities (''
                                          @ js_to_string n @ '' items)''))))"

definition handleSearchMemory ::
  "'st store_interface \<Rightarrow> jsval \<Rightarrow> 'st \<Rightarrow> (js_error + response) \<times> 'st"
where
  "handleSearchMemory exec args st =
     (if \<not> destructurable args then (Inl JsTypeError, st)
      else
        let query = get_opt args ''query'';
            limit = with_default (get_opt args ''limit'') (JNum 10)
        in after_call (exec (SearchMemory query limit) st)
             (\<lambda>results.
                case results of
                  JArr rs \<Rightarrow>
                    if list_all destructurable rs
                    then Inr (Json (JObj
                           [(''query'', query),
                            (''results_count'', JNum (int (length rs))),
                            (''results'', JArr (map (\<lambda>r. JObj
                                                        [(''type'', get_opt r ''type''),
                                                         (''relevance'', get_opt r ''relevance''),
                                                         (''content'', get_opt r ''data'')]) rs))]))
                    else Inl JsTypeError
                | _ \<Rightarrow> Inl JsTypeError))"

definition handleLogConversationContext ::
  "'st store_interface \<Rightarrow> jsval \<Rightarrow> 'st \<Rightarrow> (js_error + response) \<times> 'st"
where
  "handleLogConversationContext exec args st =
     (if \<not> destructurable args then (Inl JsTypeError, st)
      else
        let summ = get_opt args ''summary'';
            dm = get_opt args ''decisions_made'';
            sf = get_opt args ''solutions_found''
        in after_call (exec (LogConversationContext summ dm sf) st)
             (\<lambda>_. Inr (Text (''Successfully logged conversation context: ''
                               @ js_to_string summ))))"

definition confirmation_request :: "jsval \<Rightarrow> jsval \<Rightarrow> string" where
  "confirmation_request scope create_backup =
     warning_sign
     @ '' Memory clear operation requires confirmation. Call again with confirm: true to proceed.''
     @ [CHR 0x0A, CHR 0x0A] @ ''This will clear: '' @ js_to_string scope
     @ [CHR 0x0A] @ ''Backup will be created: '' @ js_to_string create_backup"

definition handleClearMemory ::
  "'st store_interface \<Rightarrow> jsval \<Rightarrow> 'st \<Rightarrow> (js_error + response) \<times> 'st"
where
  "handleClearMemory exec args st =
     (if \<not> destructurable args then (Inl JsTypeError, st)
      else
        let scope = with_default (get_opt args ''scope'') (JStr ''all'');
            create_backup = with_default (get_opt args ''create_backup'') (JBool True);
            confirm = with_default (get_opt args ''confirm'') (JBool False)
        in if \<not> truthy confirm
           then (Inr (Text (confirmation_request scope create_backup)), st)
           else after_call (exec (ClearMemory scope create_backup) st)
                  (\<lambda>result. Inr (case result of JStr s \<Rightarrow> Text s | _ \<Rightarrow> Raw result)))"

text \<open>\<open>handleToolCall\<close>: the switch on the tool name inside the \<open>try\<close>, and the \<open>catch\<close>
  that turns a thrown error into a text result.\<close>

definition dispatch ::
  "'st store_interface \<Rightarrow> string \<Rightarrow> jsval \<Rightarrow> 'st \<Rightarrow> (js_error + response) \<times> 'st"
where
  "dispatch exec name args st =
     (if name = ''get_project_context'' then handleGetProjectContext exec st
      else if name = ''update_implementation_status''
        then handleUpdateImplementationStatus exec args st
      else if name = ''add_architecture_decision'' then handleAddArchitectureDecision exec args st
      else if name = ''add_working_solution'' then handleAddWorkingSolution exec args st
      else if name = ''update_priorities'' then handleUpdatePriorities exec args st
      else if name = ''search_memory'' then handleSearchMemory exec args st
      else if name = ''log_conversation_context'' then handleLogConversationContext exec args st
      else if name = ''clear_memory'' then handleClearMemory exec args st
      else (Inl (JsError (''Unknown tool: '' @ name)), st))"

definition handleToolCall ::
  "'st store_interface \<Rightarrow> string \<Rightarrow> jsval \<Rightarrow> 'st \<Rightarrow> response \<times> 'st"
where
  "handleToolCall exec name args st =
     (case dispatch exec name args st of
        (Inl err, st') \<Rightarrow> (ErrorExecuting name err, st')
      | (Inr res, st') \<Rightarrow> (res, st'))"

text \<open>
  The validation of the status tool in the words of the specification (the tests of the
  repository call it \<open>validateToolArguments\<close>; \<open>server.ts\<close> has no such method): the text
  to signal, or \<open>None\<close> when the arguments pass.
\<close>

definition valid_statuses :: "string list" where
  "valid_statuses = [''not_started'', ''in_progress'', ''complete'', ''blocked'', ''deprecated'']"

definition spec_validate_status_call :: "jsval \<Rightarrow> string option" where
  "spec_validate_status_call args =
     (if get_opt args ''component'' = JUndefined
        then Some ''Missing required argument: component''
      else if get_opt args ''status'' = JUndefined
        then Some ''Missing required argument: status''
      else if get_opt args ''status'' \<notin> set (map JStr valid_statuses)
        then Some (''Invalid status: '' @ js_to_string (get_opt args ''status''))
      else (case get_opt args ''progress'' of
              JNum p \<Rightarrow> if p < 0 \<or> 100 < p then Some ''Progress must be between 0 and 100''
                        else None
            | _ \<Rightarrow> None))"

text \<open>A store that carries nothing out and records the calls it receives.\<close>

definition recording_store :: "(store_call list) store_interface" where
  "recording_store call calls = (Inr JUndefined, calls @ [call])"

section \<open>Sample stores\<close>

definition empty_memory :: ProjectMemory where
  "empty_memory =
     \<lparr> project_info = \<lparr> pi_name = ''proj'', pi_type = ''unknown'', pi_description = [],
                         pi_createdAt = ''2024-01-01T00:00:00.000Z'',
                         pi_lastUpdated = ''2024-01-01T00:00:00.000Z'' \<rparr>,
       implementation_status = \<lparr> overall_progress = ''unknown'', components = [] \<rparr>,
       architecture = \<lparr> technologies = [], decisions = [] \<rparr>,
       working_solutions = [],
       current_priorities = [],
       conversations = [],
       metadata = \<lparr> version = ''1.0.0'', created_at = ''2024-01-01T00:00:00.000Z'',
                     last_updated = ''2024-01-01T00:00:00.000Z'' \<rparr> \<rparr>"

definition sample_decision :: "string \<Rightarrow> string \<Rightarrow> string \<Rightarrow> ArchitectureDecision" where
  "sample_decision i d r =
     \<lparr> ad_id = i, decision = d, rationale = r, impact = None, alternatives = None,
       ad_date = ''2024-01-01T00:00:00.000Z'', ad_tags = Some [] \<rparr>"

definition sample_solution :: "string \<Rightarrow> string \<Rightarrow> string \<Rightarrow> WorkingSolution" where
  "sample_solution i p s =
     \<lparr> ws_id = i, problem = p, solution = s, command = None, ws_tags = Some [],
       ws_date = ''2024-01-01T00:00:00.000Z'', successCount = 1 \<rparr>"


text \<open>One decision about React, one solution that does not mention it.\<close>

definition react_decision :: ArchitectureDecision where
  "react_decision = sample_decision ''d1'' ''Use React for frontend'' ''Component model''"

definition react_memory :: ProjectMemory where
  "react_memory =
     empty_memory
       \<lparr> architecture := \<lparr> technologies = [], decisions = [react_decision] \<rparr>,
         working_solutions := [(''s1'', sample_solution ''s1'' ''State handling'' ''Use useState hook'')] \<rparr>"


text \<open>The default configuration, an environment with it, and a fresh store.\<close>

definition default_config :: ServerConfig where
  "default_config =
     \<lparr> max_conversation_history = 100, backup_enabled = True, backup_interval = 3600,
       compression_enabled = False, auto_detect_project_type = True \<rparr>"

definition sample_env :: env where
  "sample_env =
     \<lparr> projectRoot = ''/tmp/proj'', projectName = ''proj'', config = default_config,
       detected_type = ''Node.js/JavaScript'', now = ''2024-02-02T10:20:30.400Z'',
       fresh_id = ''lq1abc9z'', fs_ok = True \<rparr>"

definition fresh_store :: store where
  "fresh_store =
     \<lparr> memory = empty_memory, memory_file = None, context_file = None, backups = [] \<rparr>"

definition react_store :: store where
  "react_store = fresh_store\<lparr> memory := react_memory \<rparr>"

text \<open>The same environment with the conversation history set to zero entries.\<close>

definition zero_history_env :: env where
  "zero_history_env =
     sample_env\<lparr> config := default_config\<lparr> max_conversation_history := 0 \<rparr> \<rparr>"

section \<open>Auxiliary notions of the proofs\<close>



text \<open>The last \<open>n\<close> entries of a list, in their order.\<close>

definition most_recent :: "nat \<Rightarrow> 'a list \<Rightarrow> 'a list" where
  "most_recent n xs = drop (length xs - n) xs"

section \<open>Properties of the string and number operations\<close>

lemma startsWith_prefix: "startsWith s p \<longleftrightarrow> prefix p s"
  by (induction s p rule: startsWith.induct) auto

lemma js_includes_sublist: "js_includes s p \<longleftrightarrow> sublist p s"
  by (induction s) (auto simp: startsWith_prefix sublist_Cons_right)

lemma js_includes_append_left: "js_includes a p \<Longrightarrow> js_includes (a @ b) p"
  by (metis js_includes_sublist sublist_append)

lemma js_includes_append_right: "js_includes b p \<Longrightarrow> js_includes (a @ b) p"
  by (metis js_includes_sublist sublist_append)













section \<open>Properties of the sort and of the slices\<close>

lemma mset_sort_insert: "mset (sort_insert cmp x ys) = add_mset x (mset ys)"
  by (induction ys) simp_all

lemma mset_js_sort: "mset (js_sort cmp xs) = mset xs"
  by (induction xs) (simp_all add: js_sort_def mset_sort_insert)

lemma set_js_sort: "set (js_sort cmp xs) = set xs"
  by (metis mset_js_sort set_mset_mset)












lemma set_slice0: "set (slice0 xs n) \<subseteq> set xs"
  by (auto simp: slice0_def dest: in_set_takeD)

lemma slice0_all: "int (length xs) \<le> n \<Longrightarrow> slice0 xs n = xs"
  by (simp add: slice0_def)


section \<open>Properties of the scans\<close>


lemma field_match_text:
  "field_match ql rec \<Longrightarrow> js_includes (toLowerCase (record_text rec)) ql"
  by (cases rec)
     (auto simp: field_match_def toLowerCase_def
           intro: js_includes_append_left js_includes_append_right)

lemma decision_matches_field: "decision_matches ql d = field_match ql (DecisionData d)"
  by (simp add: decision_matches_def field_match_def)

lemma solution_matches_field: "solution_matches ql w = field_match ql (SolutionData w)"
  by (simp add: solution_matches_def field_match_def)

lemma conversation_matches_field:
  "conversation_matches ql c = field_match ql (ConversationData c)"
  by (simp add: conversation_matches_def field_match_def)

lemma scan_results_data:
  "map r_data (scan_results m ql) = filter (field_match ql) (all_records m)"
  by (simp add: scan_results_def all_records_def filter_map comp_def
      decision_result_def solution_result_def conversation_result_def
      decision_matches_field [abs_def] solution_matches_field [abs_def]
      conversation_matches_field [abs_def])

lemma scan_results_member:
  assumes "r \<in> set (scan_results m ql)"
  shows "field_match ql (r_data r) \<and>
         relevance r = calculateRelevance ql (record_text (r_data r))"
  using assms
  by (auto simp: scan_results_def decision_result_def solution_result_def
      conversation_result_def decision_matches_field solution_matches_field
      conversation_matches_field)


lemma searchMemory_subset:
  "set (searchMemory m query limit) \<subseteq> set (scan_results m (toLowerCase query))"
  using set_slice0 [of "js_sort compare_relevance (scan_results m (toLowerCase query))" limit]
  by (simp add: searchMemory_def set_js_sort)

section \<open>Properties of the store operations\<close>

lemma memory_createBackup: "memory (createBackup e s) = memory s"
  by (simp add: createBackup_def Let_def)

lemma memory_saveMemory:
  "memory (snd (saveMemory e s))
     = (memory s)\<lparr> metadata := (metadata (memory s))\<lparr> last_updated := now e \<rparr> \<rparr>"
  by (simp add: saveMemory_def Let_def memory_createBackup)

lemma conversations_saveMemory:
  "conversations (memory (snd (saveMemory e s))) = conversations (memory s)"
  by (simp add: memory_saveMemory)

lemma logConversationContext_conversations:
  "conversations (memory (snd (logConversationContext e summ dm sf s)))
     = (let pushed = conversations (memory s)
                     @ [\<lparr> cc_id = fresh_id e, summary = summ, decisions_made = dm,
                          solutions_found = sf, cc_date = now e \<rparr>]
        in if int (length pushed) > max_conversation_history (config e)
           then slice_from pushed (- max_conversation_history (config e))
           else pushed)"
  unfolding logConversationContext_def Let_def conversations_saveMemory
  by simp

lemma snd_save_result:
  "snd (case p of (Inl err, s2) \<Rightarrow> (Inl err, s2) | (Inr u, s2) \<Rightarrow> (Inr (f u), s2)) = snd p"
  by (cases p; cases "fst p") auto


lemma clearMemory_scope_memory:
  "memory (snd (clearMemory e ''decisions'' False s))
     = (memory s)\<lparr> architecture := (architecture (memory s))\<lparr> decisions := [] \<rparr>,
                   metadata := (metadata (memory s))\<lparr> last_updated := now e \<rparr> \<rparr>"
  "memory (snd (clearMemory e ''solutions'' False s))
     = (memory s)\<lparr> working_solutions := [],
                   metadata := (metadata (memory s))\<lparr> last_updated := now e \<rparr> \<rparr>"
  "memory (snd (clearMemory e ''conversations'' False s))
     = (memory s)\<lparr> conversations := [],
                   metadata := (metadata (memory s))\<lparr> last_updated := now e \<rparr> \<rparr>"
  "memory (snd (clearMemory e ''components'' False s))
     = (memory s)\<lparr> implementation_status :=
                     (implementation_status (memory s))
                       \<lparr> components := [], overall_progress := ''unknown'' \<rparr>,
                   metadata := (metadata (memory s))\<lparr> last_updated := now e \<rparr> \<rparr>"
  unfolding clearMemory_def Let_def
  by (simp_all add: snd_save_result memory_saveMemory)


section \<open>Properties of the conversation log\<close>


lemma slice_from_last:
  assumes "1 \<le> k"
  shows "slice_from xs (- k) = most_recent (nat k) xs"
proof -
  have "nat (int (length xs) - k) = length xs - nat k"
    using assms by linarith
  with assms show ?thesis by (simp add: slice_from_def most_recent_def)
qed

lemma length_most_recent: "length (most_recent n xs) = min n (length xs)"
  by (simp add: most_recent_def)

lemma most_recent_all: "length xs \<le> n \<Longrightarrow> most_recent n xs = xs"
  by (simp add: most_recent_def)

lemma most_recent_append:
  "most_recent n (most_recent n xs @ ys) = most_recent n (xs @ ys)"
proof (cases "length xs \<le> n")
  case True
  then show ?thesis by (simp add: most_recent_all)
next
  case False
  then have l: "length (most_recent n xs) = n" by (simp add: length_most_recent)
  have "most_recent n (most_recent n xs @ ys)
          = drop (length ys) (most_recent n xs @ ys)"
    unfolding most_recent_def [of n "most_recent n xs @ ys"] using l by simp
  also have "\<dots> = drop (length ys) (drop (length xs - n) xs) @ drop (length ys - n) ys"
    using l by (simp add: most_recent_def)
  also have "\<dots> = drop (length xs + length ys - n) xs @ drop (length ys - n) ys"
    using False by (simp add: add.commute)
  also have "\<dots> = most_recent n (xs @ ys)"
    using False by (simp add: most_recent_def)
  finally show ?thesis .
qed

lemma logConversationContext_cap:
  assumes "1 \<le> max_conversation_history (config e)"
  shows "conversations (memory (snd (logConversationContext e summ dm sf s)))
           = most_recent (nat (max_conversation_history (config e)))
               (conversations (memory s)
                @ [\<lparr> cc_id = fresh_id e, summary = summ, decisions_made = dm,
                     solutions_found = sf, cc_date = now e \<rparr>])"
proof -
  let ?k = "max_conversation_history (config e)"
  let ?pushed = "conversations (memory s)
                   @ [\<lparr> cc_id = fresh_id e, summary = summ, decisions_made = dm,
                        solutions_found = sf, cc_date = now e \<rparr>]"
  have c: "conversations (memory (snd (logConversationContext e summ dm sf s)))
             = (if int (length ?pushed) > ?k then slice_from ?pushed (- ?k) else ?pushed)"
    unfolding logConversationContext_conversations Let_def ..
  show ?thesis
  proof (cases "int (length ?pushed) > ?k")
    case True
    with c show ?thesis by (simp only: if_True slice_from_last [OF assms])
  next
    case False
    then have "length ?pushed \<le> nat ?k" by linarith
    then have "most_recent (nat ?k) ?pushed = ?pushed" by (rule most_recent_all)
    with c False show ?thesis by (simp only: if_False)
  qed
qed

lemma logConversationContext_length:
  assumes "1 \<le> max_conversation_history (config e)"
  shows "int (length (conversations (memory (snd (logConversationContext e summ dm sf s)))))
           \<le> max_conversation_history (config e)"
proof -
  have "length (conversations (memory (snd (logConversationContext e summ dm sf s))))
          \<le> nat (max_conversation_history (config e))"
    unfolding logConversationContext_cap [OF assms] by (simp add: length_most_recent)
  with assms show ?thesis by linarith
qed


lemma log_all_Cons:
  "log_all e (a # summaries) s
     = log_all e summaries (snd (logConversationContext e a None None s))"
  by (simp add: log_all_def)

lemma log_all_cap:
  assumes "1 \<le> max_conversation_history (config e)"
    and "int (length (conversations (memory s))) \<le> max_conversation_history (config e)"
  shows "conversations (memory (log_all e summaries s))
           = most_recent (nat (max_conversation_history (config e)))
               (conversations (memory s) @ map (logged_conversation e) summaries)"
  using assms(2)
proof (induction summaries arbitrary: s)
  case Nil
  then have "length (conversations (memory s)) \<le> nat (max_conversation_history (config e))"
    by linarith
  then show ?case by (simp add: log_all_def most_recent_all)
next
  case (Cons a summaries)
  let ?k = "nat (max_conversation_history (config e))"
  let ?s1 = "snd (logConversationContext e a None None s)"
  have c1: "conversations (memory ?s1)
              = most_recent ?k (conversations (memory s) @ [logged_conversation e a])"
    unfolding logConversationContext_cap [OF assms(1)] logged_conversation_def ..
  have "int (length (conversations (memory ?s1))) \<le> max_conversation_history (config e)"
    by (rule logConversationContext_length [OF assms(1)])
  then have "conversations (memory (log_all e summaries ?s1))
               = most_recent ?k (conversations (memory ?s1) @ map (logged_conversation e) summaries)"
    by (rule Cons.IH)
  also have "\<dots> = most_recent ?k ((conversations (memory s) @ [logged_conversation e a])
                                    @ map (logged_conversation e) summaries)"
    unfolding c1 by (rule most_recent_append)
  finally show ?case by (simp add: log_all_Cons)
qed


lemma logConversationContext_zero:
  assumes "max_conversation_history (config e) = 0"
  shows "conversations (memory (snd (logConversationContext e summ None None s)))
           = conversations (memory s) @ [logged_conversation e summ]"
  using assms
  by (simp add: logConversationContext_conversations Let_def slice_from_def
      logged_conversation_def)

lemma log_all_zero:
  assumes "max_conversation_history (config e) = 0"
  shows "conversations (memory (log_all e summaries s))
           = conversations (memory s) @ map (logged_conversation e) summaries"
proof (induction summaries arbitrary: s)
  case Nil
  then show ?case by (simp add: log_all_def)
next
  case (Cons a summaries)
  show ?case
    unfolding log_all_Cons Cons.IH logConversationContext_zero [OF assms] by simp
qed


section \<open>Properties of the validation on load\<close>


lemma validateAndMigrateMemory_fields:
  "get_opt (get_opt (validateAndMigrateMemory e mem) ''architecture'') ''technologies''
     = (if isArray (get_opt (get_opt mem ''architecture'') ''technologies'')
        then get_opt (get_opt mem ''architecture'') ''technologies'' else JArr [])"
  "get_opt (get_opt (validateAndMigrateMemory e mem) ''architecture'') ''decisions''
     = (if isArray (get_opt (get_opt mem ''architecture'') ''decisions'')
        then get_opt (get_opt mem ''architecture'') ''decisions'' else JArr [])"
  "get_opt (validateAndMigrateMemory e mem) ''current_priorities''
     = (if isArray (get_opt mem ''current_priorities'')
        then get_opt mem ''current_priorities'' else JArr [])"
  "get_opt (validateAndMigrateMemory e mem) ''conversations''
     = (if isArray (get_opt mem ''conversations'')
        then get_opt mem ''conversations'' else JArr [])"
  "get_opt (validateAndMigrateMemory e mem) ''working_solutions''
     = (if truthy (get_opt mem ''working_solutions'')
           \<and> typeof_object (get_opt mem ''working_solutions'')
        then get_opt mem ''working_solutions'' else JObj [])"
  by (simp_all add: validateAndMigrateMemory_def Let_def)

lemma truthy_object_shape:
  "truthy v \<and> typeof_object v \<longleftrightarrow> isMapping v \<or> isArray v"
  by (cases v) simp_all

lemma validateAndMigrateMemory_shapes:
  "isArray (get_opt (get_opt (validateAndMigrateMemory e mem) ''architecture'') ''technologies'')"
  "isArray (get_opt (get_opt (validateAndMigrateMemory e mem) ''architecture'') ''decisions'')"
  "isArray (get_opt (validateAndMigrateMemory e mem) ''current_priorities'')"
  "isArray (get_opt (validateAndMigrateMemory e mem) ''conversations'')"
  "isMapping (get_opt (validateAndMigrateMemory e mem) ''working_solutions'')
   \<or> isArray (get_opt (validateAndMigrateMemory e mem) ''working_solutions'')"
  unfolding validateAndMigrateMemory_fields
  using truthy_object_shape [of "get_opt mem ''working_solutions''"]
  by auto

lemma validateAndMigrateMemory_mapping_iff:
  "isMapping (get_opt (validateAndMigrateMemory e mem) ''working_solutions'')
     \<longleftrightarrow> \<not> isArray (get_opt mem ''working_solutions'')"
  unfolding validateAndMigrateMemory_fields
  by (cases "get_opt mem ''working_solutions''") simp_all


section \<open>Properties of the gateway\<close>




lemma update_status_always_dispatches:
  "handleToolCall exec ''update_implementation_status'' (JObj kvs) st
     = (case exec (UpdateImplementationStatus (get_opt (JObj kvs) ''component'')
                     (get_opt (JObj kvs) ''status'') (get_opt (JObj kvs) ''details'')
                     (get_opt (JObj kvs) ''progress'')) st of
          (Inl err, st') \<Rightarrow> (ErrorExecuting ''update_implementation_status'' err, st')
        | (Inr v, st') \<Rightarrow>
            (Text (''Successfully updated '' @ js_to_string (get_opt (JObj kvs) ''component'')
                   @ '' status to '' @ js_to_string (get_opt (JObj kvs) ''status'')
                   @ (if get_opt (JObj kvs) ''progress'' \<noteq> JUndefined
                      then '' ('' @ js_to_string (get_opt (JObj kvs) ''progress'') @ ''%)''
                      else [])), st'))"
  by (simp add: handleToolCall_def dispatch_def handleUpdateImplementationStatus_def
      destructurable_def after_call_def Let_def split: prod.splits sum.splits)


lemma components_updateImplementationStatus:
  "components (implementation_status
      (memory (snd (updateImplementationStatus e component status details progress s))))
     = AList.update component
         \<lparr> cs_status = status,
           cs_progress = (case progress of None \<Rightarrow> 0 | Some p \<Rightarrow> p),
           cs_details = details,
           cs_lastUpdated = now e \<rparr>
         (components (implementation_status (memory s)))"
  by (simp add: updateImplementationStatus_def Let_def memory_saveMemory)

section \<open>Search: admission, ranking, case and the floor of the score\<close>


text \<open>
  \<^bold>\<open>C1\<close> (as amended).  \<open>searchMemory\<close> admits a record exactly when the lowercased query is
  a substring of one of the record's own lowercased fields (decision or rationale; problem
  or solution; summary): the admitted records are the records of the store that pass this
  test, in scan order.  Every admitted record therefore passes the whole-string test on its
  lowercased text, so no record is admitted through an overlap of tokens alone.  What
  \<open>searchMemory\<close> returns are admitted candidates, and all of them when the limit is at
  least their number.
\<close>

theorem searchMemory_admission:
  "map r_data (scan_results m (toLowerCase query))
     = filter (field_match (toLowerCase query)) (all_records m)
   \<and> (\<forall>r\<in>set (scan_results m (toLowerCase query)).
         js_includes (toLowerCase (record_text (r_data r))) (toLowerCase query))
   \<and> set (searchMemory m query limit) \<subseteq> set (scan_results m (toLowerCase query))
   \<and> (int (length (scan_results m (toLowerCase query))) \<le> limit \<longrightarrow>
        mset (searchMemory m query limit) = mset (scan_results m (toLowerCase query)))"
proof (intro conjI ballI impI)
  show "map r_data (scan_results m (toLowerCase query))
          = filter (field_match (toLowerCase query)) (all_records m)"
    by (rule scan_results_data)
next
  fix r
  assume "r \<in> set (scan_results m (toLowerCase query))"
  then have "field_match (toLowerCase query) (r_data r)"
    by (simp add: scan_results_member)
  then show "js_includes (toLowerCase (record_text (r_data r))) (toLowerCase query)"
    by (rule field_match_text)
next
  show "set (searchMemory m query limit) \<subseteq> set (scan_results m (toLowerCase query))"
    by (rule searchMemory_subset)
next
  assume "int (length (scan_results m (toLowerCase query))) \<le> limit"
  then have "int (length (js_sort compare_relevance (scan_results m (toLowerCase query)))) \<le> limit"
    by (metis mset_js_sort size_mset)
  then show "mset (searchMemory m query limit) = mset (scan_results m (toLowerCase query))"
    by (simp add: searchMemory_def slice0_all mset_js_sort)
qed

theorem searchMemory_admission_witness:
  "decision_result ''react'' react_decision \<in> set (scan_results react_memory (toLowerCase ''React''))
   \<and> js_includes (toLowerCase (record_text (DecisionData react_decision))) (toLowerCase ''React'')
   \<and> map r_data (scan_results react_memory (toLowerCase ''React''))
       = filter (field_match (toLowerCase ''React'')) (all_records react_memory)
   \<and> int (length (scan_results react_memory (toLowerCase ''React''))) \<le> 10
   \<and> mset (searchMemory react_memory ''React'' 10)
       = mset (scan_results react_memory (toLowerCase ''React''))"
proof -
  have a: "decision_result ''react'' react_decision
             \<in> set (scan_results react_memory (toLowerCase ''React''))"
    by code_simp
  have b: "int (length (scan_results react_memory (toLowerCase ''React''))) \<le> 10"
    by code_simp
  have c: "r_data (decision_result ''react'' react_decision) = DecisionData react_decision"
    by (simp add: decision_result_def)
  from searchMemory_admission [of react_memory "''React''" 10] a b c show ?thesis
    by (metis (no_types, lifting))
qed

text \<open>
  The claim as it was stated fails: the query \<open>react native\<close> shares the token \<open>react\<close> with
  the sample decision, which the specification's test admits, and \<open>searchMemory\<close> returns
  nothing.
\<close>

theorem searchMemory_admission_counterexample:
  "spec_admits ''react native'' (record_text (DecisionData react_decision)) \<and>
   all_records react_memory ! 0 = DecisionData react_decision \<and>
   searchMemory react_memory ''react native'' 10 = []"
  by code_simp










section \<open>Clearing the memory\<close>

text \<open>
  \<^bold>\<open>C6\<close>.  For each of the scopes \<open>decisions\<close>, \<open>solutions\<close>, \<open>conversations\<close> and
  \<open>components\<close>, \<open>clearMemory(scope, false)\<close> leaves a memory that is the memory before with
  that scope's section emptied (for \<open>components\<close>, the mapping emptied and
  \<open>overall_progress\<close> reset to \<open>unknown\<close>) and the save's \<open>last_updated\<close> stamp: every other
  section is as it was.
\<close>

theorem clearMemory_frame:
  "memory (snd (clearMemory e ''decisions'' False s))
     = (memory s)\<lparr> architecture := (architecture (memory s))\<lparr> decisions := [] \<rparr>,
                   metadata := (metadata (memory s))\<lparr> last_updated := now e \<rparr> \<rparr>
   \<and> memory (snd (clearMemory e ''solutions'' False s))
     = (memory s)\<lparr> working_solutions := [],
                   metadata := (metadata (memory s))\<lparr> last_updated := now e \<rparr> \<rparr>
   \<and> memory (snd (clearMemory e ''conversations'' False s))
     = (memory s)\<lparr> conversations := [],
                   metadata := (metadata (memory s))\<lparr> last_updated := now e \<rparr> \<rparr>
   \<and> memory (snd (clearMemory e ''components'' False s))
     = (memory s)\<lparr> implementation_status :=
                     (implementation_status (memory s))
                       \<lparr> components := [], overall_progress := ''unknown'' \<rparr>,
                   metadata := (metadata (memory s))\<lparr> last_updated := now e \<rparr> \<rparr>"
  by (intro conjI) (rule clearMemory_scope_memory)+


theorem clearMemory_frame_witness:
  "decisions (architecture (memory (snd (clearMemory sample_env ''decisions'' False react_store)))) = []
   \<and> working_solutions (memory (snd (clearMemory sample_env ''decisions'' False react_store)))
       = working_solutions react_memory
   \<and> working_solutions (memory (snd (clearMemory sample_env ''solutions'' False react_store))) = []
   \<and> decisions (architecture (memory (snd (clearMemory sample_env ''solutions'' False react_store))))
       = [react_decision]"
proof -
  have m: "memory react_store = react_memory"
    by (simp add: react_store_def)
  have d: "decisions (architecture react_memory) = [react_decision]"
    by (simp add: react_memory_def)
  from clearMemory_frame [of sample_env react_store] m d show ?thesis by simp
qed

text \<open>
  \<^bold>\<open>C10\<close>.  \<open>clearMemory\<close> with a scope outside \<open>all\<close>, \<open>decisions\<close>, \<open>solutions\<close>,
  \<open>conversations\<close>, \<open>components\<close> throws its unknown-scope error before any mutation or
  save: the memory after the failed call is the memory before it, the memory file and the
  context snapshot are not written, and the only effect is the backup, made when
  \<open>createBackup\<close> is true.
\<close>

theorem clearMemory_unknown_scope:
  assumes "scope \<notin> {''all'', ''decisions'', ''solutions'', ''conversations'', ''components''}"
  shows "fst (clearMemory e scope withBackup s)
           = Inl (Error (''Unknown scope: '' @ scope
                         @ ''. Use: all, decisions, solutions, conversations, or components''))
       \<and> snd (clearMemory e scope withBackup s) = (if withBackup then createBackup e s else s)
       \<and> memory (snd (clearMemory e scope withBackup s)) = memory s
       \<and> memory_file (snd (clearMemory e scope withBackup s)) = memory_file s
       \<and> context_file (snd (clearMemory e scope withBackup s)) = context_file s"
proof -
  from assms have r: "clearMemory e scope withBackup s
      = (Inl (Error (''Unknown scope: '' @ scope
                     @ ''. Use: all, decisions, solutions, conversations, or components'')),
         if withBackup then createBackup e s else s)"
    unfolding clearMemory_def Let_def by simp
  have f: "memory_file (createBackup e s) = memory_file s"
          "context_file (createBackup e s) = context_file s"
    by (simp_all add: createBackup_def Let_def)
  show ?thesis
    unfolding r by (simp add: memory_createBackup f)
qed

theorem clearMemory_unknown_scope_witness:
  "''bogus'' \<notin> {''all'', ''decisions'', ''solutions'', ''conversations'', ''components''}
   \<and> fst (clearMemory sample_env ''bogus'' True react_store)
       = Inl (Error ''Unknown scope: bogus. Use: all, decisions, solutions, conversations, or components'')
   \<and> memory (snd (clearMemory sample_env ''bogus'' True react_store)) = memory react_store
   \<and> memory_file (snd (clearMemory sample_env ''bogus'' True react_store)) = None
   \<and> map fst (backups (snd (clearMemory sample_env ''bogus'' True react_store)))
       = [''memory_backup_2024-02-02T10-20-30-400Z.json'']"
proof -
  have h: "''bogus'' \<notin> {''all'', ''decisions'', ''solutions'', ''conversations'', ''components''}"
    by simp
  have b: "map fst (backups (snd (clearMemory sample_env ''bogus'' True react_store)))
             = [''memory_backup_2024-02-02T10-20-30-400Z.json'']"
    by code_simp
  have m: "memory_file react_store = None"
    by (simp add: react_store_def fresh_store_def)
  from clearMemory_unknown_scope [OF h, of sample_env True react_store]
  have "fst (clearMemory sample_env ''bogus'' True react_store)
       = Inl (Error (''Unknown scope: '' @ ''bogus''
                         @ ''. Use: all, decisions, solutions, conversations, or components''))"
    and "memory (snd (clearMemory sample_env ''bogus'' True react_store)) = memory react_store"
    and "memory_file (snd (clearMemory sample_env ''bogus'' True react_store)) = memory_file react_store"
    by blast+
  with h b m show ?thesis by simp
qed

section \<open>The cap on the conversation log\<close>

text \<open>
  \<^bold>\<open>C4\<close>.  The claim is that after any call of \<open>logConversationContext\<close> the conversations
  are at most the configured maximum in number, the most recent ones in append order.  For a
  maximum of at least 1 this is \<open>logConversationContext_cap\<close>, \<open>logConversationContext_length\<close>
  and \<open>log_all_cap\<close> above.  With the maximum configured as 0 the code keeps everything,
  because \<open>slice(-0)\<close> is \<open>slice(0)\<close>: five calls on an empty store leave five entries.
\<close>

theorem logConversationContext_zero_max:
  "max_conversation_history (config zero_history_env) = 0
   \<and> conversations (memory fresh_store) = []
   \<and> conversations (memory (log_all zero_history_env [''a'', ''b'', ''c'', ''d'', ''e''] fresh_store))
       = map (logged_conversation zero_history_env) [''a'', ''b'', ''c'', ''d'', ''e'']
   \<and> length (conversations
        (memory (log_all zero_history_env [''a'', ''b'', ''c'', ''d'', ''e''] fresh_store))) = 5"
proof -
  have z: "max_conversation_history (config zero_history_env) = 0"
    by (simp add: zero_history_env_def)
  have f: "conversations (memory fresh_store) = []"
    by (simp add: fresh_store_def empty_memory_def)
  from z f log_all_zero [OF z, of "[''a'', ''b'', ''c'', ''d'', ''e'']" fresh_store]
  show ?thesis by simp
qed

section \<open>The container shapes after validation\<close>

text \<open>
  \<^bold>\<open>C5\<close>.  The claim is that \<open>validateAndMigrateMemory\<close> returns, for every input, a memory
  whose four sequence fields are sequences and whose \<open>working_solutions\<close> is a mapping and not
  a sequence.  The function never fails and the four sequence fields are always sequences
  (\<open>validateAndMigrateMemory_shapes\<close>), but the test of \<open>working_solutions\<close> is
  \<open>typeof ... === 'object'\<close>, which an array passes: a file whose \<open>working_solutions\<close> is
  \<open>[]\<close> is loaded with the array in place of the mapping.
\<close>

theorem validateAndMigrateMemory_array_solutions:
  "get_opt (validateAndMigrateMemory sample_env (JObj [(''working_solutions'', JArr [])]))
      ''working_solutions'' = JArr []
   \<and> isArray (get_opt (validateAndMigrateMemory sample_env (JObj [(''working_solutions'', JArr [])]))
      ''working_solutions'')
   \<and> \<not> isMapping (get_opt (validateAndMigrateMemory sample_env (JObj [(''working_solutions'', JArr [])]))
      ''working_solutions'')"
  by (simp add: validateAndMigrateMemory_fields)

section \<open>The gateway: validation and the confirmation gate\<close>

text \<open>
  \<^bold>\<open>C3\<close>.  The claim is that the gateway validates the arguments of every tool call before
  it dispatches, signals \<open>Missing required argument\<close>, \<open>Invalid status\<close> or an out-of-range
  text, and never invokes the store in such a case.  \<open>handleToolCall\<close> has no validation:
  for every argument object the status tool reaches the store
  (\<open>update_status_always_dispatches\<close>).  On an invalid status, a missing status and a
  progress of 150 the store operation is invoked and the call reports success, where the
  specified validation gives the three texts; the store keeps the invalid status.
\<close>

theorem handleToolCall_no_validation:
  "handleToolCall recording_store ''update_implementation_status''
       (JObj [(''component'', JStr ''test''), (''status'', JStr ''invalid_status'')]) []
     = (Text ''Successfully updated test status to invalid_status'',
        [UpdateImplementationStatus (JStr ''test'') (JStr ''invalid_status'') JUndefined JUndefined])
   \<and> spec_validate_status_call
        (JObj [(''component'', JStr ''test''), (''status'', JStr ''invalid_status'')])
       = Some ''Invalid status: invalid_status''
   \<and> handleToolCall recording_store ''update_implementation_status''
       (JObj [(''component'', JStr ''test'')]) []
     = (Text ''Successfully updated test status to undefined'',
        [UpdateImplementationStatus (JStr ''test'') JUndefined JUndefined JUndefined])
   \<and> spec_validate_status_call (JObj [(''component'', JStr ''test'')])
       = Some ''Missing required argument: status''
   \<and> handleToolCall recording_store ''update_implementation_status''
       (JObj [(''component'', JStr ''test''), (''status'', JStr ''in_progress''),
              (''progress'', JNum 150)]) []
     = (Text ''Successfully updated test status to in_progress (150%)'',
        [UpdateImplementationStatus (JStr ''test'') (JStr ''in_progress'') JUndefined (JNum 150)])
   \<and> spec_validate_status_call
        (JObj [(''component'', JStr ''test''), (''status'', JStr ''in_progress''),
               (''progress'', JNum 150)])
       = Some ''Progress must be between 0 and 100''
   \<and> map (\<lambda>(k, c). (k, cs_status c))
        (components (implementation_status
           (memory (snd (updateImplementationStatus sample_env ''test'' ''invalid_status''
                           None None fresh_store)))))
       = [(''test'', ''invalid_status'')]"
proof -
  have store: "map (\<lambda>(k, c). (k, cs_status c))
        (components (implementation_status
           (memory (snd (updateImplementationStatus sample_env ''test'' ''invalid_status''
                           None None fresh_store)))))
       = [(''test'', ''invalid_status'')]"
    by (simp add: components_updateImplementationStatus fresh_store_def empty_memory_def)
  have gateway: "handleToolCall recording_store ''update_implementation_status''
       (JObj [(''component'', JStr ''test''), (''status'', JStr ''invalid_status'')]) []
     = (Text ''Successfully updated test status to invalid_status'',
        [UpdateImplementationStatus (JStr ''test'') (JStr ''invalid_status'') JUndefined JUndefined])
   \<and> spec_validate_status_call
        (JObj [(''component'', JStr ''test''), (''status'', JStr ''invalid_status'')])
       = Some ''Invalid status: invalid_status''
   \<and> handleToolCall recording_store ''update_implementation_status''
       (JObj [(''component'', JStr ''test'')]) []
     = (Text ''Successfully updated test status to undefined'',
        [UpdateImplementationStatus (JStr ''test'') JUndefined JUndefined JUndefined])
   \<and> spec_validate_status_call (JObj [(''component'', JStr ''test'')])
       = Some ''Missing required argument: status''
   \<and> handleToolCall recording_store ''update_implementation_status''
       (JObj [(''component'', JStr ''test''), (''status'', JStr ''in_progress''),
              (''progress'', JNum 150)]) []
     = (Text ''Successfully updated test status to in_progress (150%)'',
        [UpdateImplementationStatus (JStr ''test'') (JStr ''in_progress'') JUndefined (JNum 150)])
   \<and> spec_validate_status_call
        (JObj [(''component'', JStr ''test''), (''status'', JStr ''in_progress''),
               (''progress'', JNum 150)])
       = Some ''Progress must be between 0 and 100''"
    by code_simp
  from gateway store show ?thesis by (intro conjI) (elim conjE, assumption)+
qed




end
